theory Spec2Isabelle
  imports Complex_Main "HOL-Library.Multiset"
begin

section \<open>Numbers and metric records\<close>

text \<open>
  The dashboard is TypeScript; every metric is a JavaScript \<open>number\<close>. The embedding
  reads a \<open>number\<close> as an exact \<^typ>\<open>real\<close>: counters are integers far below
  \<open>2^53\<close>, where IEEE doubles are exact, and the rounding of duration and dollar sums
  is idealised away. \<open>NaN\<close> and the infinities have no counterpart; the places where
  the source meets them (\<open>parseInt(..) || 0\<close>, \<open>safeDivide\<close>) are modelled by an
  explicit test on the value that would produce them.

  \<open>CollectionsMetrics\<close> keeps the field names of \<open>src/types/index.ts\<close>. Isabelle
  record fields are global constants, so the fields that
  \<open>WelcomeVerificationMetrics\<close> shares with it carry the prefix \<open>wv_\<close>, and
  the fields of the two anonymous raw argument records carry \<open>raw_\<close> and
  \<open>rawwv_\<close>.
\<close>

record CollectionsMetrics =
  accounts :: real
  calls :: real
  callsPerAccount :: real
  connects :: real
  connectRate :: real
  rpcs :: real
  rpcRate :: real
  promises :: real
  promisesPerRpc :: real
  cashPayments :: real
  cashPerRpc :: real
  cashPerPromises :: real
  transfers :: real
  transfersPerRpc :: real
  timeOnCallHours :: real
  avgTimePerCallMin :: real
  dollarPromised :: real
  dollarCollected :: real
  avgPaymentAmount :: real
  dollarPerRpc :: real

record WelcomeVerificationMetrics =
  wv_accounts :: real
  wv_calls :: real
  wv_callsPerAccount :: real
  wv_connects :: real
  wv_connectRate :: real
  wv_rpcs :: real
  wv_rpcRate :: real
  wv_eligible :: real
  wv_eligiblePerRpc :: real
  wv_completed :: real
  wv_completedPerEligible :: real
  wv_completedPerRpc :: real
  wv_incomplete :: real

record PeriodKPIs =
  collections :: CollectionsMetrics
  inbound :: CollectionsMetrics
  "welcome" :: WelcomeVerificationMetrics
  verification :: WelcomeVerificationMetrics

text \<open>The argument of \<open>calculateDerivedCollectionsMetrics\<close>.\<close>

record RawCollections =
  raw_accounts :: real
  raw_calls :: real
  raw_connects :: real
  raw_rpcs :: real
  raw_promises :: real
  raw_cashPayments :: real
  raw_transfers :: real
  raw_durationMinutes :: real
  raw_dollarPromised :: real
  raw_dollarCollected :: real

text \<open>The argument of \<open>calculateDerivedWelcomeMetrics\<close>.\<close>

record RawWelcome =
  rawwv_accounts :: real
  rawwv_calls :: real
  rawwv_connects :: real
  rawwv_rpcs :: real
  rawwv_eligible :: real
  rawwv_completed :: real

definition emptyCollectionsMetrics :: CollectionsMetrics where
  "emptyCollectionsMetrics =
     \<lparr> accounts = 0, calls = 0, callsPerAccount = 0, connects = 0, connectRate = 0,
       rpcs = 0, rpcRate = 0, promises = 0, promisesPerRpc = 0, cashPayments = 0,
       cashPerRpc = 0, cashPerPromises = 0, transfers = 0, transfersPerRpc = 0,
       timeOnCallHours = 0, avgTimePerCallMin = 0, dollarPromised = 0,
       dollarCollected = 0, avgPaymentAmount = 0, dollarPerRpc = 0 \<rparr>"

definition emptyWelcomeVerificationMetrics :: WelcomeVerificationMetrics where
  "emptyWelcomeVerificationMetrics =
     \<lparr> wv_accounts = 0, wv_calls = 0, wv_callsPerAccount = 0, wv_connects = 0,
       wv_connectRate = 0, wv_rpcs = 0, wv_rpcRate = 0, wv_eligible = 0,
       wv_eligiblePerRpc = 0, wv_completed = 0, wv_completedPerEligible = 0,
       wv_completedPerRpc = 0, wv_incomplete = 0 \<rparr>"

definition emptyPeriodKPIs :: PeriodKPIs where
  "emptyPeriodKPIs =
     \<lparr> collections = emptyCollectionsMetrics, inbound = emptyCollectionsMetrics,
       welcome = emptyWelcomeVerificationMetrics,
       verification = emptyWelcomeVerificationMetrics \<rparr>"

section \<open>Metrics derivation\<close>

text \<open>
  \<open>safeDivide\<close> tests the denominator with \<open>=== 0\<close> before dividing. HOL's own
  \<open>x / 0\<close> is \<open>0\<close> as well, but the model keeps the source's test so that the
  policy is visible in the definition and not borrowed from the logic.
\<close>

definition safeDivide :: "real \<Rightarrow> real \<Rightarrow> real" where
  "safeDivide numerator denominator =
     (if denominator = 0 then 0 else numerator / denominator)"

definition calculateDerivedCollectionsMetrics :: "RawCollections \<Rightarrow> CollectionsMetrics" where
  "calculateDerivedCollectionsMetrics raw =
     \<lparr> accounts = raw_accounts raw,
       calls = raw_calls raw,
       callsPerAccount = safeDivide (raw_calls raw) (raw_accounts raw),
       connects = raw_connects raw,
       connectRate = safeDivide (raw_connects raw) (raw_calls raw) * 100,
       rpcs = raw_rpcs raw,
       rpcRate = safeDivide (raw_rpcs raw) (raw_connects raw) * 100,
       promises = raw_promises raw,
       promisesPerRpc = safeDivide (raw_promises raw) (raw_rpcs raw) * 100,
       cashPayments = raw_cashPayments raw,
       cashPerRpc = safeDivide (raw_cashPayments raw) (raw_rpcs raw) * 100,
       cashPerPromises = safeDivide (raw_cashPayments raw) (raw_promises raw) * 100,
       transfers = raw_transfers raw,
       transfersPerRpc = safeDivide (raw_transfers raw) (raw_rpcs raw) * 100,
       timeOnCallHours = raw_durationMinutes raw / 60,
       avgTimePerCallMin = safeDivide (raw_durationMinutes raw) (raw_calls raw),
       dollarPromised = raw_dollarPromised raw,
       dollarCollected = raw_dollarCollected raw,
       avgPaymentAmount = safeDivide (raw_dollarCollected raw) (raw_cashPayments raw),
       dollarPerRpc = safeDivide (raw_dollarCollected raw) (raw_rpcs raw) \<rparr>"

definition calculateDerivedWelcomeMetrics :: "RawWelcome \<Rightarrow> WelcomeVerificationMetrics" where
  "calculateDerivedWelcomeMetrics raw =
     \<lparr> wv_accounts = rawwv_accounts raw,
       wv_calls = rawwv_calls raw,
       wv_callsPerAccount = safeDivide (rawwv_calls raw) (rawwv_accounts raw),
       wv_connects = rawwv_connects raw,
       wv_connectRate = safeDivide (rawwv_connects raw) (rawwv_calls raw) * 100,
       wv_rpcs = rawwv_rpcs raw,
       wv_rpcRate = safeDivide (rawwv_rpcs raw) (rawwv_connects raw) * 100,
       wv_eligible = rawwv_eligible raw,
       wv_eligiblePerRpc = safeDivide (rawwv_eligible raw) (rawwv_rpcs raw) * 100,
       wv_completed = rawwv_completed raw,
       wv_completedPerEligible = safeDivide (rawwv_completed raw) (rawwv_eligible raw) * 100,
       wv_completedPerRpc = safeDivide (rawwv_completed raw) (rawwv_rpcs raw) * 100,
       wv_incomplete = rawwv_eligible raw - rawwv_completed raw \<rparr>"

section \<open>The reducer\<close>

text \<open>
  \<open>sumPeriodKPIs\<close> adds the raw counters of two records field by field and writes
  \<open>0\<close> into every rate (\<open>// Will be recalculated\<close>);
  \<open>recalculateDerivedMetrics\<close> then derives the rates again from the counters,
  reading the duration back as \<open>timeOnCallHours * 60\<close>.
\<close>

definition sumCollections :: "CollectionsMetrics \<Rightarrow> CollectionsMetrics \<Rightarrow> CollectionsMetrics" where
  "sumCollections a b =
     \<lparr> accounts = accounts a + accounts b,
       calls = calls a + calls b,
       callsPerAccount = 0,
       connects = connects a + connects b,
       connectRate = 0,
       rpcs = rpcs a + rpcs b,
       rpcRate = 0,
       promises = promises a + promises b,
       promisesPerRpc = 0,
       cashPayments = cashPayments a + cashPayments b,
       cashPerRpc = 0,
       cashPerPromises = 0,
       transfers = transfers a + transfers b,
       transfersPerRpc = 0,
       timeOnCallHours = timeOnCallHours a + timeOnCallHours b,
       avgTimePerCallMin = 0,
       dollarPromised = dollarPromised a + dollarPromised b,
       dollarCollected = dollarCollected a + dollarCollected b,
       avgPaymentAmount = 0,
       dollarPerRpc = 0 \<rparr>"

definition sumWelcome ::
  "WelcomeVerificationMetrics \<Rightarrow> WelcomeVerificationMetrics \<Rightarrow> WelcomeVerificationMetrics" where
  "sumWelcome a b =
     \<lparr> wv_accounts = wv_accounts a + wv_accounts b,
       wv_calls = wv_calls a + wv_calls b,
       wv_callsPerAccount = 0,
       wv_connects = wv_connects a + wv_connects b,
       wv_connectRate = 0,
       wv_rpcs = wv_rpcs a + wv_rpcs b,
       wv_rpcRate = 0,
       wv_eligible = wv_eligible a + wv_eligible b,
       wv_eligiblePerRpc = 0,
       wv_completed = wv_completed a + wv_completed b,
       wv_completedPerEligible = 0,
       wv_completedPerRpc = 0,
       wv_incomplete = wv_incomplete a + wv_incomplete b \<rparr>"

definition sumPeriodKPIs :: "PeriodKPIs \<Rightarrow> PeriodKPIs \<Rightarrow> PeriodKPIs" where
  "sumPeriodKPIs a b =
     \<lparr> collections = sumCollections (collections a) (collections b),
       inbound = sumCollections (inbound a) (inbound b),
       welcome = sumWelcome (welcome a) (welcome b),
       verification = sumWelcome (verification a) (verification b) \<rparr>"

definition rawOfCollections :: "CollectionsMetrics \<Rightarrow> RawCollections" where
  "rawOfCollections m =
     \<lparr> raw_accounts = accounts m,
       raw_calls = calls m,
       raw_connects = connects m,
       raw_rpcs = rpcs m,
       raw_promises = promises m,
       raw_cashPayments = cashPayments m,
       raw_transfers = transfers m,
       raw_durationMinutes = timeOnCallHours m * 60,
       raw_dollarPromised = dollarPromised m,
       raw_dollarCollected = dollarCollected m \<rparr>"

definition rawOfWelcome :: "WelcomeVerificationMetrics \<Rightarrow> RawWelcome" where
  "rawOfWelcome m =
     \<lparr> rawwv_accounts = wv_accounts m,
       rawwv_calls = wv_calls m,
       rawwv_connects = wv_connects m,
       rawwv_rpcs = wv_rpcs m,
       rawwv_eligible = wv_eligible m,
       rawwv_completed = wv_completed m \<rparr>"

definition recalculateDerivedMetrics :: "PeriodKPIs \<Rightarrow> PeriodKPIs" where
  "recalculateDerivedMetrics kpis =
     \<lparr> collections = calculateDerivedCollectionsMetrics (rawOfCollections (collections kpis)),
       inbound = calculateDerivedCollectionsMetrics (rawOfCollections (inbound kpis)),
       welcome = calculateDerivedWelcomeMetrics (rawOfWelcome (welcome kpis)),
       verification = calculateDerivedWelcomeMetrics (rawOfWelcome (verification kpis)) \<rparr>"

section \<open>Period-over-period change\<close>

text \<open>
  \<open>MoMChange\<close> is \<open>{ value, trend }\<close>; its fields are \<open>mom_value\<close> and
  \<open>mom_trend\<close> here. \<open>!previous || previous === 0\<close> holds for \<open>0\<close> (and for
  \<open>NaN\<close>, which a real cannot be), so the guard is \<open>previous = 0\<close>: a negative
  previous value is divided by.
\<close>

datatype TrendDirection = Up | Down | Neutral

record MoMChange =
  mom_value :: real
  mom_trend :: TrendDirection

definition calculateMoMChange :: "real \<Rightarrow> real \<Rightarrow> MoMChange" where
  "calculateMoMChange current previous =
     (if previous = 0 then \<lparr> mom_value = 0, mom_trend = Neutral \<rparr>
      else
        let change = ((current - previous) / previous) * 100;
            trend = (if change > 0.5 then Up else if change < - 0.5 then Down else Neutral)
        in \<lparr> mom_value = change, mom_trend = trend \<rparr>)"

section \<open>Scorecard scoring\<close>

datatype HealthStatus = Good | Warning | Critical | NeutralStatus

record ScorecardMetric =
  current :: real
  baseline :: real
  change :: real
  trend :: TrendDirection
  status :: HealthStatus

definition getHealthStatus :: "real \<Rightarrow> bool \<Rightarrow> HealthStatus" where
  "getHealthStatus chg invertLogic =
     (let adjustedChange = (if invertLogic then - chg else chg)
      in if adjustedChange \<le> - 15 then Critical
         else if adjustedChange < - 5 then Warning
         else if adjustedChange > 5 then Good
         else NeutralStatus)"

definition createScorecardMetric :: "real \<Rightarrow> real \<Rightarrow> bool \<Rightarrow> ScorecardMetric" where
  "createScorecardMetric cur base invertLogic =
     (let chg = (if base > 0 then ((cur - base) / base) * 100 else 0);
          tr = (if chg > 0.5 then Up else if chg < - 0.5 then Down else Neutral)
      in \<lparr> current = cur, baseline = base, change = chg, trend = tr,
           status = getHealthStatus chg invertLogic \<rparr>)"

text \<open>The argument of \<open>calculateOverallScore\<close>: the six metrics of one client.\<close>

record ScoreInput =
  sc_callVolume :: ScorecardMetric
  sc_connectRate :: ScorecardMetric
  sc_rpcRate :: ScorecardMetric
  sc_promiseRate :: ScorecardMetric
  sc_paymentSuccess :: ScorecardMetric
  sc_dollarCollected :: ScorecardMetric

text \<open>
  \<open>Math.round\<close> rounds to the nearest integer and a tie towards \<open>+\<infinity>\<close>, which is
  \<open>\<lfloor>x + 1/2\<rfloor>\<close>.
\<close>

definition Math_round :: "real \<Rightarrow> real" where
  "Math_round x = of_int \<lfloor>x + 1 / 2\<rfloor>"

definition getScore :: "real \<Rightarrow> real" where
  "getScore chg = (let clampedChange = max (- 50) (min 50 chg) in 50 + clampedChange)"

definition weightedScore :: "ScoreInput \<Rightarrow> real" where
  "weightedScore metrics =
     0.10 * getScore (change (sc_callVolume metrics)) +
     0.15 * getScore (change (sc_connectRate metrics)) +
     0.20 * getScore (change (sc_rpcRate metrics)) +
     0.15 * getScore (change (sc_promiseRate metrics)) +
     0.20 * getScore (change (sc_paymentSuccess metrics)) +
     0.20 * getScore (change (sc_dollarCollected metrics))"

definition calculateOverallScore :: "ScoreInput \<Rightarrow> real" where
  "calculateOverallScore metrics = Math_round (max 0 (min 100 (weightedScore metrics)))"

definition getOverallStatusFromScore :: "real \<Rightarrow> HealthStatus" where
  "getOverallStatusFromScore score =
     (if score \<ge> 55 then Good
      else if score \<ge> 45 then NeutralStatus
      else if score \<ge> 35 then Warning
      else Critical)"

section \<open>Result code taxonomy\<close>

text \<open>
  The code lists are interpolated into the SQL of \<open>buildClientKPIQuery\<close>, whose
  \<open>countIf\<close> columns classify each call of a (model, direction) group. A call is
  the columns the query reads; \<open>classifyCalls\<close> is what the query's aggregate
  columns compute over the calls of one group, as numbers (the store returns them as
  strings, which \<open>parseKPIResults\<close> reads back).
\<close>

definition NON_CONNECT_RESULTS :: "string list" where
  "NON_CONNECT_RESULTS =
     [''NOA'', ''ANX'', ''VML'', ''DEADAIR'', ''BADNO'', ''BLOCKED'',
      ''DAI'', ''DIS'',
      ''BGN'', ''DIALING'', ''ATTEMPTING'']"

definition NON_RPC_RESULTS :: "string list" where
  "NON_RPC_RESULTS = [''TPI'', ''WRONGNO'', ''XCSN'', ''WRN'', ''CHECKNO'', ''NID'']"

definition TRANSFER_RESULTS :: "string list" where
  "TRANSFER_RESULTS = [''XCSV'', ''XCSN'', ''XCSP'', ''XCS'', ''XCSR'', ''TDNC'', ''SARI'']"

definition PTP_RESULTS :: "string list" where
  "PTP_RESULTS = [''POP'', ''FCC'', ''FCC-F'', ''PHO'', ''PHO-F'', ''XCSP'']"

definition CASH_RESULTS :: "string list" where
  "CASH_RESULTS = [''PHO'', ''FCC'']"

record Call =
  account_number :: string
  result :: string
  notated_promise_to_pay :: bool
  duration :: "real option"
  amount :: "real option"
  payment_amount :: "real option"

definition coalesce :: "real option \<Rightarrow> real \<Rightarrow> real" where
  "coalesce v d = (case v of None \<Rightarrow> d | Some x \<Rightarrow> x)"

definition countIf :: "('a \<Rightarrow> bool) \<Rightarrow> 'a list \<Rightarrow> real" where
  "countIf P xs = of_nat (length (filter P xs))"

definition classifyCalls :: "Call list \<Rightarrow> RawCollections" where
  "classifyCalls cs =
     \<lparr> raw_accounts = of_nat (length (remdups (map account_number cs))),
       raw_calls = of_nat (length cs),
       raw_connects = countIf (\<lambda>c. result c \<notin> set NON_CONNECT_RESULTS) cs,
       raw_rpcs = countIf (\<lambda>c. result c \<notin> set (NON_CONNECT_RESULTS @ NON_RPC_RESULTS)) cs,
       raw_promises =
         countIf (\<lambda>c. result c \<in> set PTP_RESULTS \<or> notated_promise_to_pay c) cs,
       raw_cashPayments = countIf (\<lambda>c. result c \<in> set CASH_RESULTS) cs,
       raw_transfers = countIf (\<lambda>c. result c \<in> set TRANSFER_RESULTS) cs,
       raw_durationMinutes = (\<Sum>c\<leftarrow>cs. coalesce (duration c) 0) / 60,
       raw_dollarPromised = (\<Sum>c\<leftarrow>cs. coalesce (amount c) 0),
       raw_dollarCollected = (\<Sum>c\<leftarrow>cs. coalesce (payment_amount c) 0) \<rparr>"

section \<open>Dates\<close>

text \<open>
  A JavaScript \<open>Date\<close> is its time value, the milliseconds since 1970-01-01T00:00Z.
  The model fixes the local time zone to UTC, so that \<open>getFullYear\<close> and
  \<open>getUTCFullYear\<close> agree, and leaves out the invalid date (\<open>NaN\<close>). The
  getters and setters follow ECMA-262: a setter rebuilds the time value with
  \<open>MakeDay\<close>, which accepts a month or a day outside its range and rolls it over
  into the neighbouring months. Days and calendar dates are converted with the usual
  era arithmetic on the proleptic Gregorian calendar (a year of the computation starts
  on 1 March).
\<close>

type_synonym Date = int

definition msPerDay :: int where
  "msPerDay = 86400000"

definition Day :: "Date \<Rightarrow> int" where
  "Day t = t div msPerDay"

definition TimeWithinDay :: "Date \<Rightarrow> int" where
  "TimeWithinDay t = t mod msPerDay"

definition daysFromCivil :: "int \<Rightarrow> int \<Rightarrow> int \<Rightarrow> int" where
  \<comment> \<open>day number of year \<open>y\<close>, month \<open>m\<close> in \<open>1..12\<close>, day \<open>d\<close>\<close>
  "daysFromCivil y m d =
     (let y' = (if m \<le> 2 then y - 1 else y);
          era = y' div 400;
          yoe = y' - era * 400;
          doy = (153 * (if m > 2 then m - 3 else m + 9) + 2) div 5 + d - 1;
          doe = yoe * 365 + yoe div 4 - yoe div 100 + doy
      in era * 146097 + doe - 719468)"

definition civilFromDays :: "int \<Rightarrow> int \<times> int \<times> int" where
  \<comment> \<open>year, month in \<open>1..12\<close> and day of the month of a day number\<close>
  "civilFromDays z =
     (let z' = z + 719468;
          era = z' div 146097;
          doe = z' - era * 146097;
          yoe = (doe - doe div 1460 + doe div 36524 - doe div 146096) div 365;
          doy = doe - (365 * yoe + yoe div 4 - yoe div 100);
          mp = (5 * doy + 2) div 153;
          d = doy - (153 * mp + 2) div 5 + 1;
          m = (if mp < 10 then mp + 3 else mp - 9);
          y = yoe + era * 400
      in (if m \<le> 2 then y + 1 else y, m, d))"

definition MakeDay :: "int \<Rightarrow> int \<Rightarrow> int \<Rightarrow> int" where
  \<comment> \<open>month index \<open>m\<close> counts from 0 and may be any integer, as may the day \<open>d\<close>\<close>
  "MakeDay y m d = daysFromCivil (y + m div 12) (m mod 12 + 1) 1 + d - 1"

definition MakeTime :: "int \<Rightarrow> int \<Rightarrow> int \<Rightarrow> int \<Rightarrow> int" where
  "MakeTime h mi s ms = h * 3600000 + mi * 60000 + s * 1000 + ms"

definition MakeDate :: "int \<Rightarrow> int \<Rightarrow> Date" where
  "MakeDate dy tm = dy * msPerDay + tm"

definition getFullYear :: "Date \<Rightarrow> int" where
  "getFullYear t = fst (civilFromDays (Day t))"

definition getMonth :: "Date \<Rightarrow> int" where
  "getMonth t = fst (snd (civilFromDays (Day t))) - 1"

definition getDate :: "Date \<Rightarrow> int" where
  "getDate t = snd (snd (civilFromDays (Day t)))"

definition getDay :: "Date \<Rightarrow> int" where
  \<comment> \<open>0 is Sunday; day 0 was a Thursday\<close>
  "getDay t = (Day t + 4) mod 7"

definition setDate :: "Date \<Rightarrow> int \<Rightarrow> Date" where
  "setDate t d = MakeDate (MakeDay (getFullYear t) (getMonth t) d) (TimeWithinDay t)"

definition setMonth :: "Date \<Rightarrow> int \<Rightarrow> Date" where
  "setMonth t m = MakeDate (MakeDay (getFullYear t) m (getDate t)) (TimeWithinDay t)"

definition setHours :: "Date \<Rightarrow> int \<Rightarrow> int \<Rightarrow> int \<Rightarrow> int \<Rightarrow> Date" where
  "setHours t h mi s ms = MakeDate (Day t) (MakeTime h mi s ms)"

definition newDate :: "int \<Rightarrow> int \<Rightarrow> int \<Rightarrow> Date" where
  \<comment> \<open>\<open>new Date(year, monthIndex, day)\<close>; a year in \<open>0..99\<close> means \<open>1900 + year\<close>\<close>
  "newDate y m d =
     MakeDate (MakeDay (if 0 \<le> y \<and> y \<le> 99 then 1900 + y else y) m d) 0"

section \<open>Date ranges and period configuration\<close>

text \<open>
  Numbers are printed in decimal, as a template literal prints an integer.
  \<open>DateRange\<close> is \<open>{ start, end, label }\<close>; the argument \<open>range\<close> of
  \<open>getSamePeriodLastMonth\<close> is called \<open>rng\<close>.
\<close>

fun showNat :: "nat \<Rightarrow> string" where
  "showNat n =
     (if n < 10 then [char_of (48 + n)]
      else showNat (n div 10) @ [char_of (48 + n mod 10)])"

definition showInt :: "int \<Rightarrow> string" where
  "showInt i = (if i < 0 then CHR ''-'' # showNat (nat (- i)) else showNat (nat i))"

definition months :: "string list" where
  "months = [''Jan'', ''Feb'', ''Mar'', ''Apr'', ''May'', ''Jun'',
             ''Jul'', ''Aug'', ''Sep'', ''Oct'', ''Nov'', ''Dec'']"

record DateRange =
  start :: Date
  "end" :: Date
  label :: string

definition formatMonthYear :: "Date \<Rightarrow> string" where
  \<comment> \<open>\<open>toString().slice(-2)\<close> keeps the last two characters of the year\<close>
  "formatMonthYear date =
     (let ys = showInt (getFullYear date);
          year = drop (length ys - 2) ys
      in months ! nat (getMonth date) @ ''-'' @ year)"

definition formatDateRange :: "Date \<Rightarrow> Date \<Rightarrow> string" where
  "formatDateRange s e =
     (let sameMonth = (getMonth s = getMonth e \<and> getFullYear s = getFullYear e) in
      if sameMonth then
        months ! nat (getMonth s) @ '' '' @ showInt (getDate s) @ ''-'' @ showInt (getDate e)
          @ '', '' @ showInt (getFullYear s)
      else
        let sameYear = (getFullYear s = getFullYear e) in
        if sameYear then
          months ! nat (getMonth s) @ '' '' @ showInt (getDate s) @ '' - ''
            @ months ! nat (getMonth e) @ '' '' @ showInt (getDate e)
            @ '', '' @ showInt (getFullYear s)
        else
          months ! nat (getMonth s) @ '' '' @ showInt (getDate s) @ '', ''
            @ showInt (getFullYear s) @ '' - ''
            @ months ! nat (getMonth e) @ '' '' @ showInt (getDate e) @ '', ''
            @ showInt (getFullYear e))"

definition getWeekRange :: "Date \<Rightarrow> DateRange" where
  "getWeekRange date =
     (let d = date;
          day = getDay d;
          sunday = setHours (setDate d (getDate d - day)) 0 0 0 0;
          saturday = setHours (setDate sunday (getDate sunday + 6)) 23 59 59 999
      in \<lparr> start = sunday, end = saturday, label = formatDateRange sunday saturday \<rparr>)"

definition getWeekToDateRange :: "Date \<Rightarrow> DateRange" where
  "getWeekToDateRange date =
     (let d = date;
          day = getDay d;
          sunday = setHours (setDate d (getDate d - day)) 0 0 0 0;
          endDate = setHours d 23 59 59 999
      in \<lparr> start = sunday, end = endDate, label = formatDateRange sunday endDate \<rparr>)"

definition getMonthToDateRange :: "Date \<Rightarrow> DateRange" where
  "getMonthToDateRange date =
     (let d = date;
          monthStart = setHours (newDate (getFullYear d) (getMonth d) 1) 0 0 0 0;
          cur = setHours d 23 59 59 999
      in \<lparr> start = monthStart, end = cur, label = formatDateRange monthStart cur \<rparr>)"

definition getPreviousWeekRange :: "Date \<Rightarrow> DateRange" where
  "getPreviousWeekRange date =
     (let currentWeek = getWeekRange date;
          prevSunday = setDate (start currentWeek) (getDate (start currentWeek) - 7);
          prevSaturday = setHours (setDate prevSunday (getDate prevSunday + 6)) 23 59 59 999
      in \<lparr> start = prevSunday, end = prevSaturday,
           label = formatDateRange prevSunday prevSaturday \<rparr>)"

text \<open>
  \<open>getSamePeriodLastMonth\<close> first moves both bounds with
  \<open>setMonth(getMonth() - 1)\<close> and only then compares the day of the moved end with
  the length of the month the moved start lies in.
\<close>

definition getSamePeriodLastMonth :: "DateRange \<Rightarrow> DateRange" where
  "getSamePeriodLastMonth rng =
     (let startPrevMonth = setMonth (start rng) (getMonth (start rng) - 1);
          endPrevMonth = setMonth (end rng) (getMonth (end rng) - 1);
          daysInPrevMonth =
            getDate (newDate (getFullYear startPrevMonth) (getMonth startPrevMonth + 1) 0);
          endPrevMonth' =
            (if getDate endPrevMonth > daysInPrevMonth
             then setDate endPrevMonth daysInPrevMonth else endPrevMonth)
      in \<lparr> start = startPrevMonth, end = endPrevMonth',
           label = formatDateRange startPrevMonth endPrevMonth' \<rparr>)"

definition getWeeklyAverageRange :: "Date \<Rightarrow> int \<Rightarrow> DateRange" where
  "getWeeklyAverageRange date weeks =
     (let currentWeek = getWeekRange date;
          startDate = setDate (start currentWeek) (getDate (start currentWeek) - weeks * 7);
          endDate =
            setHours (setDate (start currentWeek) (getDate (start currentWeek) - 1)) 23 59 59 999
      in \<lparr> start = startDate, end = endDate,
           label = ''Past '' @ showInt weeks @ '' weeks avg'' \<rparr>)"

definition getMonthRange :: "Date \<Rightarrow> DateRange" where
  "getMonthRange date =
     (let monthStart = setHours (newDate (getFullYear date) (getMonth date) 1) 0 0 0 0;
          monthEnd = setHours (newDate (getFullYear date) (getMonth date + 1) 0) 23 59 59 999
      in \<lparr> start = monthStart, end = monthEnd, label = formatMonthYear date \<rparr>)"

definition getPreviousMonthRange :: "Date \<Rightarrow> DateRange" where
  "getPreviousMonthRange date =
     (let prevMonth = newDate (getFullYear date) (getMonth date - 1) 1
      in getMonthRange prevMonth)"

definition getRolling7DayRange :: "Date \<Rightarrow> DateRange" where
  "getRolling7DayRange date =
     (let e = setHours date 23 59 59 999;
          s = setHours (setDate date (getDate date - 6)) 0 0 0 0
      in \<lparr> start = s, end = e, label = formatDateRange s e \<rparr>)"

text \<open>
  \<open>ComparisonType\<close> is the union \<open>'mom' | 'wow' | 'mtd' | 'wtd'\<close> in the types, but
  the route casts the \<open>periodType\<close> query parameter to it unchecked, so at run time
  the argument of \<open>getPeriodConfig\<close> is any string. The \<open>default\<close> branch of the
  switch is the last equation.
\<close>

type_synonym ComparisonType = string

record PeriodConfig =
  periodType :: ComparisonType
  currentRange :: DateRange
  comparisonRange :: DateRange
  comparisonLabel :: string

definition periodConfigMoM :: "Date \<Rightarrow> PeriodConfig" where
  "periodConfigMoM referenceDate =
     (let cur = getMonthRange referenceDate;
          cmp = getPreviousMonthRange referenceDate
      in \<lparr> periodType = ''mom'', currentRange = cur, comparisonRange = cmp,
           comparisonLabel = ''vs '' @ label cmp \<rparr>)"

definition getPeriodConfig :: "ComparisonType \<Rightarrow> Date \<Rightarrow> PeriodConfig" where
  "getPeriodConfig comparisonType referenceDate =
     (if comparisonType = ''mom'' then periodConfigMoM referenceDate
      else if comparisonType = ''wow'' then
        (let cur = getWeekRange referenceDate;
             cmp = getPreviousWeekRange referenceDate
         in \<lparr> periodType = ''wow'', currentRange = cur, comparisonRange = cmp,
              comparisonLabel = ''vs last week'' \<rparr>)
      else if comparisonType = ''mtd'' then
        (let cur = getMonthToDateRange referenceDate;
             cmp = getSamePeriodLastMonth cur
         in \<lparr> periodType = ''mtd'', currentRange = cur, comparisonRange = cmp,
              comparisonLabel = ''vs '' @ label cmp \<rparr>)
      else if comparisonType = ''wtd'' then
        (let cur = getWeekToDateRange referenceDate;
             cmp = getWeeklyAverageRange referenceDate 4
         in \<lparr> periodType = ''wtd'', currentRange = cur, comparisonRange = cmp,
              comparisonLabel = ''vs 4-week avg'' \<rparr>)
      else periodConfigMoM referenceDate)"

section \<open>Reading the rows of the store\<close>

text \<open>
  The store answers a KPI query with one row per (model, direction) group, every
  column a string. \<open>RawKPIRow\<close> keeps the column names with the prefix \<open>row_\<close>.
  The model and the direction are read with \<open>?.\<close>, so they may be missing.

  Strings are lists of 8-bit characters: \<open>toLowerCase\<close> and the white space that
  \<open>parseInt\<close>/\<open>parseFloat\<close> skip are modelled on ASCII.
  \<open>parseInt\<close> (no radix given) skips white space, reads a sign, reads a
  \<open>0x\<close> prefix as radix 16, and takes the longest prefix of digits; with no digit
  the result is \<open>NaN\<close>, here \<open>None\<close>. \<open>parseFloat\<close> reads the longest prefix
  that is a decimal literal (digits, a fraction, an exponent); the literal
  \<open>Infinity\<close> has no value in the model and reads as \<open>None\<close>.
\<close>

record RawKPIRow =
  row_model :: "string option"
  row_direction :: "string option"
  row_accounts :: string
  row_calls :: string
  row_connects :: string
  row_rpcs :: string
  row_promises :: string
  row_cash_payments :: string
  row_transfers :: string
  row_duration_minutes :: string
  row_completed_verifications :: string
  row_dollar_promised :: string
  row_dollar_collected :: string
  row_payment_attempts :: string
  row_payment_successful :: string
  row_payment_declined :: string
  row_payment_api_failed :: string

definition toLowerCase :: "string \<Rightarrow> string" where
  "toLowerCase s =
     map (\<lambda>c. case map_of (zip ''ABCDEFGHIJKLMNOPQRSTUVWXYZ'' ''abcdefghijklmnopqrstuvwxyz'') c of
                None \<Rightarrow> c | Some l \<Rightarrow> l) s"

definition toUpperCase :: "string \<Rightarrow> string" where
  "toUpperCase s =
     map (\<lambda>c. case map_of (zip ''abcdefghijklmnopqrstuvwxyz'' ''ABCDEFGHIJKLMNOPQRSTUVWXYZ'') c of
                None \<Rightarrow> c | Some u \<Rightarrow> u) s"

definition lowerOrEmpty :: "string option \<Rightarrow> string" where
  \<comment> \<open>\<open>x?.toLowerCase() || ''\<close>\<close>
  "lowerOrEmpty x = (case x of None \<Rightarrow> [] | Some s \<Rightarrow> toLowerCase s)"

definition isWhiteSpace :: "char \<Rightarrow> bool" where
  "isWhiteSpace c =
     (c \<in> set [CHR 0x09, CHR 0x0A, CHR 0x0B, CHR 0x0C, CHR 0x0D, CHR '' ''])"

definition digitValue :: "char \<Rightarrow> nat option" where
  "digitValue c =
     map_of (zip ''0123456789abcdef'' [0, 1, 2, 3, 4, 5, 6, 7, 8, 9, 10, 11, 12, 13, 14, 15]
             @ zip ''ABCDEF'' [10, 11, 12, 13, 14, 15]) c"

definition isDigitIn :: "nat \<Rightarrow> char \<Rightarrow> bool" where
  "isDigitIn radix c = (case digitValue c of None \<Rightarrow> False | Some v \<Rightarrow> v < radix)"

definition digitsValue :: "nat \<Rightarrow> string \<Rightarrow> nat" where
  "digitsValue radix ds =
     foldl (\<lambda>a c. a * radix + (case digitValue c of None \<Rightarrow> 0 | Some v \<Rightarrow> v)) 0 ds"

definition stripSign :: "string \<Rightarrow> int \<times> string" where
  "stripSign s =
     (case s of
        [] \<Rightarrow> (1, [])
      | c # r \<Rightarrow> if c = CHR ''-'' then (- 1, r) else if c = CHR ''+'' then (1, r) else (1, s))"

definition parseInt :: "string \<Rightarrow> int option" where
  "parseInt s =
     (let (sign, s2) = stripSign (dropWhile isWhiteSpace s);
          hex = (take 2 s2 = ''0x'' \<or> take 2 s2 = ''0X'');
          radix = (if hex then 16 else 10);
          s3 = (if hex then drop 2 s2 else s2);
          ds = takeWhile (isDigitIn radix) s3
      in if ds = [] then None else Some (sign * int (digitsValue radix ds)))"

definition parseExponent :: "string \<Rightarrow> int" where
  "parseExponent s =
     (case s of
        [] \<Rightarrow> 0
      | c # r \<Rightarrow>
          if c = CHR ''e'' \<or> c = CHR ''E'' then
            (let (sign, r') = stripSign r;
                 ds = takeWhile (isDigitIn 10) r'
             in if ds = [] then 0 else sign * int (digitsValue 10 ds))
          else 0)"

definition parseFloat :: "string \<Rightarrow> real option" where
  "parseFloat s =
     (let (sign, s2) = stripSign (dropWhile isWhiteSpace s);
          ip = takeWhile (isDigitIn 10) s2;
          r1 = dropWhile (isDigitIn 10) s2;
          dot = (r1 \<noteq> [] \<and> hd r1 = CHR ''.'');
          fp = (if dot then takeWhile (isDigitIn 10) (tl r1) else []);
          r2 = (if dot then dropWhile (isDigitIn 10) (tl r1) else r1);
          e = parseExponent r2 - int (length fp);
          m = real (digitsValue 10 (ip @ fp))
      in if ip = [] \<and> fp = [] then None
         else Some (of_int sign * (if e \<ge> 0 then m * 10 ^ nat e else m / 10 ^ nat (- e))))"

definition rowInt :: "string \<Rightarrow> real" where
  \<comment> \<open>\<open>parseInt(x) || 0\<close>\<close>
  "rowInt x = (case parseInt x of None \<Rightarrow> 0 | Some n \<Rightarrow> of_int n)"

definition rowFloat :: "string \<Rightarrow> real" where
  \<comment> \<open>\<open>parseFloat(x) || 0\<close>\<close>
  "rowFloat x = (case parseFloat x of None \<Rightarrow> 0 | Some v \<Rightarrow> v)"

text \<open>
  The loop of \<open>parseKPIResults\<close> adds each row into one of four accumulators.
  \<open>addCollectionsRow\<close> is the block of ten \<open>+=\<close> that the source writes three
  times (inbound collections, outbound collections, model \<open>inbound\<close>) and
  \<open>addWelcomeRow\<close> the block of six it writes twice.
\<close>

record Accumulators =
  collectionsRaw :: RawCollections
  inboundRaw :: RawCollections
  welcomeRaw :: RawWelcome
  verificationRaw :: RawWelcome

definition zeroRawCollections :: RawCollections where
  "zeroRawCollections =
     \<lparr> raw_accounts = 0, raw_calls = 0, raw_connects = 0, raw_rpcs = 0, raw_promises = 0,
       raw_cashPayments = 0, raw_transfers = 0, raw_durationMinutes = 0,
       raw_dollarPromised = 0, raw_dollarCollected = 0 \<rparr>"

definition zeroRawWelcome :: RawWelcome where
  "zeroRawWelcome =
     \<lparr> rawwv_accounts = 0, rawwv_calls = 0, rawwv_connects = 0, rawwv_rpcs = 0,
       rawwv_eligible = 0, rawwv_completed = 0 \<rparr>"

definition zeroAccumulators :: Accumulators where
  "zeroAccumulators =
     \<lparr> collectionsRaw = zeroRawCollections, inboundRaw = zeroRawCollections,
       welcomeRaw = zeroRawWelcome, verificationRaw = zeroRawWelcome \<rparr>"

definition addCollectionsRow :: "RawCollections \<Rightarrow> RawKPIRow \<Rightarrow> RawCollections" where
  "addCollectionsRow acc row =
     \<lparr> raw_accounts = raw_accounts acc + rowInt (row_accounts row),
       raw_calls = raw_calls acc + rowInt (row_calls row),
       raw_connects = raw_connects acc + rowInt (row_connects row),
       raw_rpcs = raw_rpcs acc + rowInt (row_rpcs row),
       raw_promises = raw_promises acc + rowInt (row_promises row),
       raw_cashPayments = raw_cashPayments acc + rowInt (row_cash_payments row),
       raw_transfers = raw_transfers acc + rowInt (row_transfers row),
       raw_durationMinutes = raw_durationMinutes acc + rowFloat (row_duration_minutes row),
       raw_dollarPromised = raw_dollarPromised acc + rowFloat (row_dollar_promised row),
       raw_dollarCollected = raw_dollarCollected acc + rowFloat (row_dollar_collected row) \<rparr>"

definition addWelcomeRow :: "RawWelcome \<Rightarrow> RawKPIRow \<Rightarrow> RawWelcome" where
  "addWelcomeRow acc row =
     \<lparr> rawwv_accounts = rawwv_accounts acc + rowInt (row_accounts row),
       rawwv_calls = rawwv_calls acc + rowInt (row_calls row),
       rawwv_connects = rawwv_connects acc + rowInt (row_connects row),
       rawwv_rpcs = rawwv_rpcs acc + rowInt (row_rpcs row),
       rawwv_eligible = rawwv_eligible acc + rowInt (row_rpcs row),
       rawwv_completed = rawwv_completed acc + rowInt (row_completed_verifications row) \<rparr>"

definition accumulateRow :: "RawKPIRow \<Rightarrow> Accumulators \<Rightarrow> Accumulators" where
  "accumulateRow row acc =
     (let model = lowerOrEmpty (row_model row);
          direction = lowerOrEmpty (row_direction row)
      in if model = ''collections'' then
           (if direction = ''inbound''
            then acc\<lparr> inboundRaw := addCollectionsRow (inboundRaw acc) row \<rparr>
            else acc\<lparr> collectionsRaw := addCollectionsRow (collectionsRaw acc) row \<rparr>)
         else if model = ''welcome'' then
           acc\<lparr> welcomeRaw := addWelcomeRow (welcomeRaw acc) row \<rparr>
         else if model = ''verification'' then
           acc\<lparr> verificationRaw := addWelcomeRow (verificationRaw acc) row \<rparr>
         else if model = ''inbound'' then
           acc\<lparr> inboundRaw := addCollectionsRow (inboundRaw acc) row \<rparr>
         else acc)"

definition accumulateRows :: "RawKPIRow list \<Rightarrow> Accumulators" where
  "accumulateRows rows = fold accumulateRow rows zeroAccumulators"

definition parseKPIResults :: "RawKPIRow list \<Rightarrow> PeriodKPIs" where
  "parseKPIResults rows =
     (let acc = accumulateRows rows
      in \<lparr> collections = calculateDerivedCollectionsMetrics (collectionsRaw acc),
           inbound = calculateDerivedCollectionsMetrics (inboundRaw acc),
           welcome = calculateDerivedWelcomeMetrics (welcomeRaw acc),
           verification = calculateDerivedWelcomeMetrics (verificationRaw acc) \<rparr>)"

section \<open>The fetch orchestrator\<close>

text \<open>
  The data store is a parameter: \<open>store client startDate endDate\<close> is the outcome of
  \<open>clickhouse.query\<close> on \<open>buildClientKPIQuery(client, startDate, endDate)\<close>
  followed by \<open>result.json()\<close>, either the rows or the error thrown. The list of
  clients that \<open>getAvailableClients\<close> finds (or the error its query throws, outside
  every \<open>try\<close> of the fetch functions) is a parameter as well.
  \<open>Promise.all\<close> returns its results in the order of its argument, so a batch is a
  \<open>map\<close>; the \<open>console.error\<close> of a failed task is not modelled.
\<close>

datatype error = StoreError string | TypeError string

type_synonym Store = "string \<Rightarrow> string \<Rightarrow> string \<Rightarrow> error + RawKPIRow list"

definition padStart2 :: "string \<Rightarrow> string" where
  \<comment> \<open>\<open>padStart(2, '0')\<close>\<close>
  "padStart2 s = replicate (2 - length s) (CHR ''0'') @ s"

definition formatDateTimeForQuery :: "Date \<Rightarrow> string" where
  "formatDateTimeForQuery date =
     showInt (getFullYear date) @ ''-'' @ padStart2 (showInt (getMonth date + 1)) @ ''-''
       @ padStart2 (showInt (getDate date)) @ '' 00:00:00''"

definition formatDateTimeEndForQuery :: "Date \<Rightarrow> string" where
  "formatDateTimeEndForQuery date =
     showInt (getFullYear date) @ ''-'' @ padStart2 (showInt (getMonth date + 1)) @ ''-''
       @ padStart2 (showInt (getDate date)) @ '' 23:59:59''"

definition fetchClientData :: "Store \<Rightarrow> string \<Rightarrow> string \<Rightarrow> string \<Rightarrow> PeriodKPIs" where
  \<comment> \<open>the \<open>try\<close>/\<open>catch\<close> around one query\<close>
  "fetchClientData store client startDate endDate =
     (case store client startDate endDate of
        Inl err \<Rightarrow> emptyPeriodKPIs
      | Inr rows \<Rightarrow> parseKPIResults rows)"

record ConsolidatedViewData =
  currentPeriod :: PeriodKPIs
  previousPeriod :: PeriodKPIs
  currentPeriodLabel :: string
  previousPeriodLabel :: string
  comparisonType :: "ComparisonType option"
  comparisonContext :: "string option"

definition addBatchResult ::
  "string \<times> PeriodKPIs \<Rightarrow> PeriodKPIs \<times> PeriodKPIs \<Rightarrow> PeriodKPIs \<times> PeriodKPIs" where
  "addBatchResult r totals =
     (if fst r = ''current''
      then (sumPeriodKPIs (fst totals) (snd r), snd totals)
      else (fst totals, sumPeriodKPIs (snd totals) (snd r)))"

definition consolidatedBatch ::
  "Store \<Rightarrow> string \<times> string \<Rightarrow> string \<times> string \<Rightarrow> string list \<Rightarrow>
     PeriodKPIs \<times> PeriodKPIs \<Rightarrow> PeriodKPIs \<times> PeriodKPIs" where
  "consolidatedBatch store cur cmp batch totals =
     (let batchResults =
            concat (map (\<lambda>client.
              [(''current'', fetchClientData store client (fst cur) (snd cur)),
               (''comparison'', fetchClientData store client (fst cmp) (snd cmp))]) batch)
      in fold addBatchResult batchResults totals)"

function consolidatedBatches ::
  "(string list \<Rightarrow> PeriodKPIs \<times> PeriodKPIs \<Rightarrow> PeriodKPIs \<times> PeriodKPIs) \<Rightarrow> string list \<Rightarrow>
     nat \<Rightarrow> PeriodKPIs \<times> PeriodKPIs \<Rightarrow> PeriodKPIs \<times> PeriodKPIs" where
  "consolidatedBatches body clients i totals =
     (if i < length clients
      then consolidatedBatches body clients (i + 5) (body (take 5 (drop i clients)) totals)
      else totals)"
  by pat_completeness auto
termination
  by (relation "measure (\<lambda>(body, clients, i, totals). length clients - i)") auto

declare consolidatedBatches.simps [simp del]

definition fetchConsolidatedKPIsWithDateRange ::
  "Store \<Rightarrow> error + string list \<Rightarrow> DateRange \<Rightarrow> DateRange \<Rightarrow> ComparisonType \<Rightarrow> bool \<Rightarrow>
     error + ConsolidatedViewData" where
  "fetchConsolidatedKPIsWithDateRange store available curRange cmpRange cmpType excludeWestlake =
     (let currentStart = formatDateTimeForQuery (start curRange);
          currentEnd = formatDateTimeEndForQuery (end curRange);
          compStart = formatDateTimeForQuery (start cmpRange);
          compEnd = formatDateTimeEndForQuery (end cmpRange)
      in case available of
           Inl err \<Rightarrow> Inl err
         | Inr availableClients \<Rightarrow>
             (let clients = (if excludeWestlake
                             then filter (\<lambda>c. c \<noteq> ''westlake'') availableClients
                             else availableClients);
                  totals = consolidatedBatches
                             (consolidatedBatch store (currentStart, currentEnd) (compStart, compEnd))
                             clients 0 (emptyPeriodKPIs, emptyPeriodKPIs)
              in Inr \<lparr> currentPeriod = recalculateDerivedMetrics (fst totals),
                       previousPeriod = recalculateDerivedMetrics (snd totals),
                       currentPeriodLabel = label curRange,
                       previousPeriodLabel = label cmpRange,
                       comparisonType = Some cmpType,
                       comparisonContext = Some (''vs '' @ label cmpRange) \<rparr>))"

section \<open>The scorecard fetch\<close>

text \<open>
  \<open>fetchAllClientsScorecardData\<close> queries, for every client, the rolling seven days
  ending today and the four seven-day periods before them, in batches of 30 tasks.
  The results are stored in \<open>queryResults\<close>, a \<open>Map\<close> from the client to an array
  with one slot per period, initially \<open>null\<close>. Reading a client that the map does
  not hold and indexing the \<open>undefined\<close> that comes back would throw a
  \<open>TypeError\<close>, which the model keeps as an error branch. The current time is a
  parameter, and so is the time at which \<open>generatedAt\<close> is taken; \<open>generatedAt\<close>
  holds that time value, not its ISO rendering. The local \<open>total\<close> of
  \<open>averageWeeklyKPIs\<close> is called \<open>tot\<close>.
\<close>

record QueryTask =
  task_client :: string
  task_weekIndex :: nat
  task_range :: "string \<times> string"

type_synonym QueryResults = "string \<rightharpoonup> PeriodKPIs option list"

definition runTask :: "Store \<Rightarrow> QueryTask \<Rightarrow> QueryTask \<times> PeriodKPIs" where
  \<comment> \<open>the \<open>try\<close>/\<open>catch\<close> around one query: \<open>{ ...task, kpis }\<close>\<close>
  "runTask store task =
     (case store (task_client task) (fst (task_range task)) (snd (task_range task)) of
        Inl err \<Rightarrow> (task, emptyPeriodKPIs)
      | Inr rows \<Rightarrow> (task, parseKPIResults rows))"

definition assignIndex :: "'a option list \<Rightarrow> nat \<Rightarrow> 'a \<Rightarrow> 'a option list" where
  \<comment> \<open>\<open>arr[i] = v\<close>: an index past the end extends the array with holes\<close>
  "assignIndex arr i v =
     (if i < length arr then arr[i := Some v]
      else arr @ replicate (i - length arr) None @ [Some v])"

definition storeResult :: "QueryTask \<times> PeriodKPIs \<Rightarrow> QueryResults \<Rightarrow> error + QueryResults" where
  "storeResult r queryResults =
     (case queryResults (task_client (fst r)) of
        None \<Rightarrow> Inl (TypeError ''Cannot set properties of undefined'')
      | Some clientResults \<Rightarrow>
          Inr (queryResults (task_client (fst r) \<mapsto>
                 assignIndex clientResults (task_weekIndex (fst r)) (snd r))))"

fun storeResults :: "(QueryTask \<times> PeriodKPIs) list \<Rightarrow> QueryResults \<Rightarrow> error + QueryResults" where
  "storeResults [] queryResults = Inr queryResults"
| "storeResults (r # rs) queryResults =
     (case storeResult r queryResults of
        Inl err \<Rightarrow> Inl err
      | Inr queryResults' \<Rightarrow> storeResults rs queryResults')"

function scorecardBatches ::
  "Store \<Rightarrow> QueryTask list \<Rightarrow> nat \<Rightarrow> QueryResults \<Rightarrow> error + QueryResults" where
  "scorecardBatches store allQueryTasks i queryResults =
     (if i < length allQueryTasks then
        (let taskBatch = take 30 (drop i allQueryTasks);
             batchResults = map (runTask store) taskBatch
         in case storeResults batchResults queryResults of
              Inl err \<Rightarrow> Inl err
            | Inr queryResults' \<Rightarrow> scorecardBatches store allQueryTasks (i + 30) queryResults')
      else Inr queryResults)"
  by pat_completeness auto
termination
  by (relation "measure (\<lambda>(store, allQueryTasks, i, queryResults). length allQueryTasks - i)")
    auto

declare scorecardBatches.simps [simp del]

definition divCollections :: "CollectionsMetrics \<Rightarrow> real \<Rightarrow> CollectionsMetrics" where
  "divCollections tot divisor =
     \<lparr> accounts = accounts tot / divisor,
       calls = calls tot / divisor,
       callsPerAccount = 0,
       connects = connects tot / divisor,
       connectRate = 0,
       rpcs = rpcs tot / divisor,
       rpcRate = 0,
       promises = promises tot / divisor,
       promisesPerRpc = 0,
       cashPayments = cashPayments tot / divisor,
       cashPerRpc = 0,
       cashPerPromises = 0,
       transfers = transfers tot / divisor,
       transfersPerRpc = 0,
       timeOnCallHours = timeOnCallHours tot / divisor,
       avgTimePerCallMin = 0,
       dollarPromised = dollarPromised tot / divisor,
       dollarCollected = dollarCollected tot / divisor,
       avgPaymentAmount = 0,
       dollarPerRpc = 0 \<rparr>"

definition divWelcome :: "WelcomeVerificationMetrics \<Rightarrow> real \<Rightarrow> WelcomeVerificationMetrics" where
  "divWelcome tot divisor =
     \<lparr> wv_accounts = wv_accounts tot / divisor,
       wv_calls = wv_calls tot / divisor,
       wv_callsPerAccount = 0,
       wv_connects = wv_connects tot / divisor,
       wv_connectRate = 0,
       wv_rpcs = wv_rpcs tot / divisor,
       wv_rpcRate = 0,
       wv_eligible = wv_eligible tot / divisor,
       wv_eligiblePerRpc = 0,
       wv_completed = wv_completed tot / divisor,
       wv_completedPerEligible = 0,
       wv_completedPerRpc = 0,
       wv_incomplete = wv_incomplete tot / divisor \<rparr>"

definition averageWeeklyKPIs :: "PeriodKPIs list \<Rightarrow> PeriodKPIs" where
  "averageWeeklyKPIs weeklyKPIs =
     (if length weeklyKPIs = 0 then emptyPeriodKPIs
      else
        let tot = fold (\<lambda>kpi tot. sumPeriodKPIs tot kpi) weeklyKPIs emptyPeriodKPIs;
            divisor = of_nat (length weeklyKPIs);
            averaged =
              \<lparr> collections = divCollections (collections tot) divisor,
                inbound = divCollections (inbound tot) divisor,
                welcome = divWelcome (welcome tot) divisor,
                verification = divWelcome (verification tot) divisor \<rparr>
        in recalculateDerivedMetrics averaged)"

definition getClientDisplayName :: "string \<Rightarrow> string" where
  "getClientDisplayName client =
     (case map_of
        [(''exeter'', ''EXETER''), (''aca'', ''ACA''), (''cps'', ''CPS''), (''ally'', ''ALLY''),
         (''autonation'', ''Autonation''), (''cac'', ''CAC''), (''carmax'', ''CarMax''),
         (''creditone'', ''CreditOne''), (''finbe'', ''FINBE''), (''ftb'', ''FTB''),
         (''gm'', ''GM''), (''gofi'', ''GoFi''), (''maf'', ''MAF''),
         (''prestige'', ''Prestige''), (''strike'', ''Strike''), (''tenet'', ''Tenet''),
         (''tricolor'', ''Tricolor''), (''uacc'', ''UACC''), (''universal'', ''Universal''),
         (''westlake'', ''Westlake''), (''yendo'', ''Yendo''), (''all'', ''All Clients''),
         (''non-westlake'', ''All (Excl. Westlake)''), (''total'', ''Total'')] client of
        Some name \<Rightarrow> name
      | None \<Rightarrow> toUpperCase client)"

record ClientScorecardData =
  cs_client :: string
  cs_displayName :: string
  cs_callVolume :: ScorecardMetric
  cs_connectRate :: ScorecardMetric
  cs_rpcRate :: ScorecardMetric
  cs_promiseRate :: ScorecardMetric
  cs_paymentSuccess :: ScorecardMetric
  cs_dollarCollected :: ScorecardMetric
  overallScore :: real
  overallStatus :: HealthStatus
  cs_currentPeriodLabel :: string
  cs_comparisonLabel :: string

record AllClientsScorecardData =
  clients :: "ClientScorecardData list"
  periodInfo_currentRange :: DateRange
  periodInfo_comparisonDescription :: string
  generatedAt :: Date

definition ratePercent :: "real \<Rightarrow> real \<Rightarrow> real" where
  \<comment> \<open>\<open>d > 0 ? (n / d) * 100 : 0\<close>\<close>
  "ratePercent n d = (if d > 0 then (n / d) * 100 else 0)"

definition clientScorecard ::
  "DateRange \<Rightarrow> string \<Rightarrow> PeriodKPIs \<Rightarrow> PeriodKPIs \<Rightarrow> ClientScorecardData" where
  "clientScorecard curRange client cur base =
     (let currentCalls = calls (collections cur) + calls (inbound cur);
          baselineCalls = calls (collections base) + calls (inbound base);
          currentConnects = connects (collections cur) + connects (inbound cur);
          baselineConnects = connects (collections base) + connects (inbound base);
          currentRpcs = rpcs (collections cur) + rpcs (inbound cur);
          baselineRpcs = rpcs (collections base) + rpcs (inbound base);
          currentPromises = promises (collections cur) + promises (inbound cur);
          baselinePromises = promises (collections base) + promises (inbound base);
          currentPayments = cashPayments (collections cur) + cashPayments (inbound cur);
          baselinePayments = cashPayments (collections base) + cashPayments (inbound base);
          currentDollars = dollarCollected (collections cur) + dollarCollected (inbound cur);
          baselineDollars = dollarCollected (collections base) + dollarCollected (inbound base);
          callVolume = createScorecardMetric currentCalls baselineCalls False;
          connectRateM = createScorecardMetric (ratePercent currentConnects currentCalls)
                           (ratePercent baselineConnects baselineCalls) False;
          rpcRateM = createScorecardMetric (ratePercent currentRpcs currentConnects)
                       (ratePercent baselineRpcs baselineConnects) False;
          promiseRate = createScorecardMetric (ratePercent currentPromises currentRpcs)
                          (ratePercent baselinePromises baselineRpcs) False;
          paymentSuccess = createScorecardMetric (ratePercent currentPayments currentRpcs)
                             (ratePercent baselinePayments baselineRpcs) False;
          dollarCollectedM = createScorecardMetric currentDollars baselineDollars False;
          score = calculateOverallScore
                    \<lparr> sc_callVolume = callVolume, sc_connectRate = connectRateM,
                      sc_rpcRate = rpcRateM, sc_promiseRate = promiseRate,
                      sc_paymentSuccess = paymentSuccess,
                      sc_dollarCollected = dollarCollectedM \<rparr>
      in \<lparr> cs_client = client,
           cs_displayName = getClientDisplayName client,
           cs_callVolume = callVolume,
           cs_connectRate = connectRateM,
           cs_rpcRate = rpcRateM,
           cs_promiseRate = promiseRate,
           cs_paymentSuccess = paymentSuccess,
           cs_dollarCollected = dollarCollectedM,
           overallScore = score,
           overallStatus = getOverallStatusFromScore score,
           cs_currentPeriodLabel = label curRange,
           cs_comparisonLabel = ''vs 4-week avg'' \<rparr>)"

definition clientPeriods :: "QueryResults \<Rightarrow> string \<Rightarrow> error + PeriodKPIs \<times> PeriodKPIs" where
  \<comment> \<open>\<open>weekResults[0] || emptyPeriodKPIs()\<close> and the average of the other filled slots\<close>
  "clientPeriods queryResults client =
     (case queryResults client of
        None \<Rightarrow> Inl (TypeError ''Cannot read properties of undefined'')
      | Some weekResults \<Rightarrow>
          Inr (case weekResults of
                 Some k # rest \<Rightarrow> k
               | _ \<Rightarrow> emptyPeriodKPIs,
               averageWeeklyKPIs (List.map_filter id (drop 1 weekResults))))"

fun clientScorecards ::
  "DateRange \<Rightarrow> QueryResults \<Rightarrow> string list \<Rightarrow> error + ClientScorecardData list" where
  "clientScorecards curRange queryResults [] = Inr []"
| "clientScorecards curRange queryResults (client # rest) =
     (case clientPeriods queryResults client of
        Inl err \<Rightarrow> Inl err
      | Inr p \<Rightarrow>
          (case clientScorecards curRange queryResults rest of
             Inl err \<Rightarrow> Inl err
           | Inr cards \<Rightarrow> Inr (clientScorecard curRange client (fst p) (snd p) # cards)))"

definition weekRangesFor :: "DateRange \<Rightarrow> (string \<times> string) list" where
  "weekRangesFor curRange =
     (formatDateTimeForQuery (start curRange), formatDateTimeEndForQuery (end curRange))
     # map (\<lambda>w. let periodEnd = setDate (start curRange)
                                    (getDate (start curRange) - ((w - 1) * 7) - 1);
                      periodRange = getRolling7DayRange periodEnd
                  in (formatDateTimeForQuery (start periodRange),
                      formatDateTimeEndForQuery (end periodRange)))
           [1, 2, 3, 4]"

definition fetchAllClientsScorecardData ::
  "Store \<Rightarrow> error + string list \<Rightarrow> Date \<Rightarrow> Date \<Rightarrow> error + AllClientsScorecardData" where
  "fetchAllClientsScorecardData store available now generated =
     (let curRange = getRolling7DayRange now;
          weekRanges = weekRangesFor curRange
      in case available of
           Inl err \<Rightarrow> Inl err
         | Inr availableClients \<Rightarrow>
             (let allQueryTasks =
                    concat (map (\<lambda>client.
                      map (\<lambda>weekIndex. \<lparr> task_client = client, task_weekIndex = weekIndex,
                                          task_range = weekRanges ! weekIndex \<rparr>)
                          [0..<length weekRanges]) availableClients);
                  initial =
                    fold (\<lambda>client m. m(client \<mapsto> replicate (length weekRanges) None))
                      availableClients Map.empty
              in case scorecardBatches store allQueryTasks 0 initial of
                   Inl err \<Rightarrow> Inl err
                 | Inr queryResults \<Rightarrow>
                     (case clientScorecards curRange queryResults availableClients of
                        Inl err \<Rightarrow> Inl err
                      | Inr cards \<Rightarrow>
                          Inr \<lparr> clients = cards,
                                periodInfo_currentRange = curRange,
                                periodInfo_comparisonDescription =
                                  ''Last 7 days vs 4-week rolling average'',
                                generatedAt = generated \<rparr>)))"

section \<open>Example data\<close>





definition rawScenario :: RawCollections where
  "rawScenario =
     \<lparr> raw_accounts = 1000, raw_calls = 5000, raw_connects = 2000, raw_rpcs = 800,
       raw_promises = 400, raw_cashPayments = 200, raw_transfers = 100,
       raw_durationMinutes = 15000, raw_dollarPromised = 0, raw_dollarCollected = 0 \<rparr>"

text \<open>
  Four calls of one group: a promise, an unanswered call whose promise flag is set, and
  two transfers before verification.
\<close>

definition overflowCalls :: "Call list" where
  "overflowCalls =
     [\<lparr> account_number = ''A1'', result = ''POP'', notated_promise_to_pay = False,
         duration = Some 120, amount = Some 50, payment_amount = None \<rparr>,
      \<lparr> account_number = ''A2'', result = ''NOA'', notated_promise_to_pay = True,
         duration = None, amount = None, payment_amount = None \<rparr>,
      \<lparr> account_number = ''A3'', result = ''XCSN'', notated_promise_to_pay = False,
         duration = Some 60, amount = None, payment_amount = None \<rparr>,
      \<lparr> account_number = ''A4'', result = ''XCSN'', notated_promise_to_pay = False,
         duration = Some 60, amount = None, payment_amount = None \<rparr>]"

text \<open>
  The dead-band rule in the words of the specification (up above \<open>0.5\<close>, down below
  \<open>-0.5\<close>, neutral otherwise), to compare the two change functions with.
\<close>

definition spec_trend :: "real \<Rightarrow> TrendDirection" where
  "spec_trend v = (if v > 0.5 then Up else if v < - 0.5 then Down else Neutral)"

text \<open>
  Three rows of one answer of the store: outbound collections without a direction and
  with an unreadable \<open>connects\<close> column, the same counts as inbound collections, and
  a row of a model the dashboard does not know.
\<close>

definition rowOutbound :: RawKPIRow where
  "rowOutbound =
     \<lparr> row_model = Some ''Collections'', row_direction = None,
       row_accounts = ''12'', row_calls = ''40'', row_connects = ''n/a'', row_rpcs = ''8'',
       row_promises = ''4'', row_cash_payments = ''2'', row_transfers = ''1'',
       row_duration_minutes = ''90.5'', row_completed_verifications = ''0'',
       row_dollar_promised = ''300'', row_dollar_collected = ''150.25'',
       row_payment_attempts = ''2'', row_payment_successful = ''2'',
       row_payment_declined = ''0'', row_payment_api_failed = ''0'' \<rparr>"

definition rowInbound :: RawKPIRow where
  "rowInbound =
     rowOutbound \<lparr> row_model := Some ''collections'', row_direction := Some ''Inbound'' \<rparr>"

definition rowUnknown :: RawKPIRow where
  "rowUnknown = rowOutbound \<lparr> row_model := Some ''sales'', row_direction := Some ''outbound'' \<rparr>"

text \<open>
  The months of January and March 2025 up to their last day, as
  \<open>getMonthToDateRange\<close> returns them on the 31st, and December 2024.
\<close>

definition january2025 :: DateRange where
  "january2025 =
     \<lparr> start = newDate 2025 0 1, end = setHours (newDate 2025 0 31) 23 59 59 999,
       label = ''Jan 1-31, 2025'' \<rparr>"

definition march2025 :: DateRange where
  "march2025 =
     \<lparr> start = newDate 2025 2 1, end = setHours (newDate 2025 2 31) 23 59 59 999,
       label = ''Mar 1-31, 2025'' \<rparr>"

definition december2024 :: DateRange where
  "december2024 =
     \<lparr> start = newDate 2024 11 1, end = setHours (newDate 2024 11 31) 23 59 59 999,
       label = ''Dec 1-31, 2024'' \<rparr>"

text \<open>
  Three stores: one that is down for every query, one that fails for the client
  \<open>exeter\<close> only, and, for any store, the store that answers with no rows where
  the given one fails.
\<close>

definition downStore :: Store where
  "downStore client startDate endDate = Inl (StoreError ''connection refused'')"

definition flakyStore :: Store where
  "flakyStore client startDate endDate =
     (if client = ''exeter'' then Inl (StoreError ''timeout'') else Inr [rowOutbound])"

definition maskFailures :: "Store \<Rightarrow> Store" where
  "maskFailures store client startDate endDate =
     (case store client startDate endDate of Inl err \<Rightarrow> Inr [] | Inr rows \<Rightarrow> Inr rows)"

text \<open>
  The invariant of the scorecard's result map when every query fails: each slot is
  still \<open>null\<close> or holds the all-zero record.
\<close>

definition allEmpty :: "QueryResults \<Rightarrow> bool" where
  "allEmpty m = (\<forall>c arr. m c = Some arr \<longrightarrow> set arr \<subseteq> {None, Some emptyPeriodKPIs})"

section \<open>The reducer is commutative and associative\<close>











section \<open>Rates are recomputed from summed counters\<close>












section \<open>The derivation formulas\<close>

lemma safeDivide_zero: "safeDivide x 0 = 0"
  by (simp add: safeDivide_def)

lemma safeDivide_nonzero: "d \<noteq> 0 \<Longrightarrow> safeDivide n d = n / d"
  by (simp add: safeDivide_def)

text \<open>
  Claim C3. \<open>calculateDerivedCollectionsMetrics\<close> returns exactly the eleven quotients
  of the specification, each one \<open>0\<close> when its denominator is \<open>0\<close> (also for
  \<open>0/0\<close>); \<open>timeOnCallHours\<close> divides by the constant 60. The raw counters are
  passed through unchanged. A real number is never \<open>NaN\<close> or infinite, so that part
  of the claim reads: the zero denominator is tested before the division.
\<close>

theorem calculateDerivedCollectionsMetrics_formulas:
  "(let m = calculateDerivedCollectionsMetrics raw in
     callsPerAccount m = (if raw_accounts raw = 0 then 0 else raw_calls raw / raw_accounts raw) \<and>
     connectRate m = (if raw_calls raw = 0 then 0 else raw_connects raw / raw_calls raw) * 100 \<and>
     rpcRate m = (if raw_connects raw = 0 then 0 else raw_rpcs raw / raw_connects raw) * 100 \<and>
     promisesPerRpc m = (if raw_rpcs raw = 0 then 0 else raw_promises raw / raw_rpcs raw) * 100 \<and>
     cashPerRpc m = (if raw_rpcs raw = 0 then 0 else raw_cashPayments raw / raw_rpcs raw) * 100 \<and>
     cashPerPromises m =
       (if raw_promises raw = 0 then 0 else raw_cashPayments raw / raw_promises raw) * 100 \<and>
     transfersPerRpc m = (if raw_rpcs raw = 0 then 0 else raw_transfers raw / raw_rpcs raw) * 100 \<and>
     timeOnCallHours m = raw_durationMinutes raw / 60 \<and>
     avgTimePerCallMin m =
       (if raw_calls raw = 0 then 0 else raw_durationMinutes raw / raw_calls raw) \<and>
     avgPaymentAmount m =
       (if raw_cashPayments raw = 0 then 0 else raw_dollarCollected raw / raw_cashPayments raw) \<and>
     dollarPerRpc m = (if raw_rpcs raw = 0 then 0 else raw_dollarCollected raw / raw_rpcs raw) \<and>
     accounts m = raw_accounts raw \<and> calls m = raw_calls raw \<and>
     connects m = raw_connects raw \<and> rpcs m = raw_rpcs raw \<and>
     promises m = raw_promises raw \<and> cashPayments m = raw_cashPayments raw \<and>
     transfers m = raw_transfers raw \<and> dollarPromised m = raw_dollarPromised raw \<and>
     dollarCollected m = raw_dollarCollected raw) \<and>
   safeDivide x 0 = 0 \<and> safeDivide 0 0 = 0"
  by (simp add: calculateDerivedCollectionsMetrics_def safeDivide_def Let_def)

text \<open>
  The end-to-end scenario of the specification, and the record of a window without
  any call.
\<close>

theorem calculateDerivedCollectionsMetrics_formulas_witness:
  "(let m = calculateDerivedCollectionsMetrics rawScenario in
     callsPerAccount m = 5 \<and> connectRate m = 40 \<and> rpcRate m = 40 \<and>
     promisesPerRpc m = 50 \<and> cashPerRpc m = 25 \<and> cashPerPromises m = 50 \<and>
     transfersPerRpc m = 25 / 2 \<and> timeOnCallHours m = 250 \<and> avgTimePerCallMin m = 3 \<and>
     avgPaymentAmount m = 0 \<and> dollarPerRpc m = 0) \<and>
   calculateDerivedCollectionsMetrics zeroRawCollections = emptyCollectionsMetrics"
proof -
  have "calculateDerivedCollectionsMetrics zeroRawCollections = emptyCollectionsMetrics"
    by (simp add: calculateDerivedCollectionsMetrics_def zeroRawCollections_def
        emptyCollectionsMetrics_def safeDivide_def)
  with calculateDerivedCollectionsMetrics_formulas [of rawScenario 0]
  show ?thesis
    by (simp add: rawScenario_def Let_def)
qed

section \<open>Rates between 0 and 100\<close>

lemma safeDivide_rate_bounds:
  assumes "0 \<le> n" "n \<le> d"
  shows "0 \<le> safeDivide n d * 100 \<and> safeDivide n d * 100 \<le> 100"
proof (cases "d = 0")
  case True
  then show ?thesis by (simp add: safeDivide_def)
next
  case False
  with assms have pos: "0 < d" by simp
  from pos assms have "0 \<le> n * 100 / d" by simp
  moreover from pos assms have "n * 100 / d \<le> 100" by (simp add: pos_divide_le_eq)
  ultimately show ?thesis using False by (simp add: safeDivide_def)
qed

lemma safeDivide_rate_nonneg:
  assumes "0 \<le> n" "0 \<le> d"
  shows "0 \<le> safeDivide n d * 100"
  using assms by (simp add: safeDivide_def)

lemma overflowCalls_counts:
  "classifyCalls overflowCalls =
     \<lparr> raw_accounts = 4, raw_calls = 4, raw_connects = 3, raw_rpcs = 1, raw_promises = 2,
       raw_cashPayments = 0, raw_transfers = 2, raw_durationMinutes = 4,
       raw_dollarPromised = 50, raw_dollarCollected = 0 \<rparr>"
  by (simp add: classifyCalls_def overflowCalls_def countIf_def coalesce_def
      NON_CONNECT_RESULTS_def NON_RPC_RESULTS_def PTP_RESULTS_def CASH_RESULTS_def
      TRANSFER_RESULTS_def)

text \<open>
  Claim C5, as stated, fails. The hypotheses \<open>connects \<le> calls\<close> and
  \<open>rpcs \<le> connects\<close> bound two of the six rates only. The four calls of
  \<open>overflowCalls\<close> are classified by the query into 4 calls, 3 connects, 1 RPC,
  2 promises and 2 transfers: the funnel hypotheses hold, and
  \<open>promisesPerRpc\<close> and \<open>transfersPerRpc\<close> are both 200.
\<close>

theorem derived_rates_counterexample:
  "(let r = classifyCalls overflowCalls; m = calculateDerivedCollectionsMetrics r in
      0 \<le> raw_connects r \<and> raw_connects r \<le> raw_calls r \<and>
      0 \<le> raw_rpcs r \<and> raw_rpcs r \<le> raw_connects r \<and>
      promisesPerRpc m = 200 \<and> \<not> promisesPerRpc m \<le> 100 \<and>
      transfersPerRpc m = 200 \<and> \<not> transfersPerRpc m \<le> 100)"
  by (simp add: overflowCalls_counts calculateDerivedCollectionsMetrics_def safeDivide_def
      Let_def)

text \<open>
  Claim C5, amended. For a raw aggregate with non-negative counters in which
  \<open>connects \<le> calls\<close> and \<open>rpcs \<le> connects\<close>, \<open>connectRate\<close> and
  \<open>rpcRate\<close> lie in \<open>[0,100]\<close> and the other four rates are at least \<open>0\<close>;
  each of those four is at most \<open>100\<close> when its own numerator does not exceed its
  denominator (\<open>promises \<le> rpcs\<close>, \<open>cashPayments \<le> rpcs\<close>,
  \<open>cashPayments \<le> promises\<close>, \<open>transfers \<le> rpcs\<close>).
\<close>

theorem derived_rates_in_range:
  assumes nonneg: "0 \<le> raw_calls r" "0 \<le> raw_connects r" "0 \<le> raw_rpcs r"
      "0 \<le> raw_promises r" "0 \<le> raw_cashPayments r" "0 \<le> raw_transfers r"
    and funnel: "raw_connects r \<le> raw_calls r" "raw_rpcs r \<le> raw_connects r"
  shows "(let m = calculateDerivedCollectionsMetrics r in
     0 \<le> connectRate m \<and> connectRate m \<le> 100 \<and>
     0 \<le> rpcRate m \<and> rpcRate m \<le> 100 \<and>
     0 \<le> promisesPerRpc m \<and> (raw_promises r \<le> raw_rpcs r \<longrightarrow> promisesPerRpc m \<le> 100) \<and>
     0 \<le> cashPerRpc m \<and> (raw_cashPayments r \<le> raw_rpcs r \<longrightarrow> cashPerRpc m \<le> 100) \<and>
     0 \<le> cashPerPromises m \<and>
       (raw_cashPayments r \<le> raw_promises r \<longrightarrow> cashPerPromises m \<le> 100) \<and>
     0 \<le> transfersPerRpc m \<and> (raw_transfers r \<le> raw_rpcs r \<longrightarrow> transfersPerRpc m \<le> 100))"
  using assms
  by (simp add: calculateDerivedCollectionsMetrics_def Let_def safeDivide_rate_bounds
      safeDivide_rate_nonneg)

theorem derived_rates_in_range_witness:
  "(let m = calculateDerivedCollectionsMetrics rawScenario in
     0 \<le> connectRate m \<and> connectRate m \<le> 100 \<and> 0 \<le> rpcRate m \<and> rpcRate m \<le> 100 \<and>
     0 \<le> promisesPerRpc m \<and> promisesPerRpc m \<le> 100 \<and>
     0 \<le> cashPerRpc m \<and> cashPerRpc m \<le> 100 \<and>
     0 \<le> cashPerPromises m \<and> cashPerPromises m \<le> 100 \<and>
     0 \<le> transfersPerRpc m \<and> transfersPerRpc m \<le> 100) \<and>
   raw_connects rawScenario \<le> raw_calls rawScenario \<and>
   raw_rpcs rawScenario \<le> raw_connects rawScenario \<and>
   raw_promises rawScenario \<le> raw_rpcs rawScenario \<and>
   raw_cashPayments rawScenario \<le> raw_promises rawScenario \<and>
   raw_transfers rawScenario \<le> raw_rpcs rawScenario"
proof -
  have h: "0 \<le> raw_calls rawScenario" "0 \<le> raw_connects rawScenario"
    "0 \<le> raw_rpcs rawScenario" "0 \<le> raw_promises rawScenario"
    "0 \<le> raw_cashPayments rawScenario" "0 \<le> raw_transfers rawScenario"
    "raw_connects rawScenario \<le> raw_calls rawScenario"
    "raw_rpcs rawScenario \<le> raw_connects rawScenario"
    by (simp_all add: rawScenario_def)
  have more: "raw_promises rawScenario \<le> raw_rpcs rawScenario"
    "raw_cashPayments rawScenario \<le> raw_rpcs rawScenario"
    "raw_cashPayments rawScenario \<le> raw_promises rawScenario"
    "raw_transfers rawScenario \<le> raw_rpcs rawScenario"
    by (simp_all add: rawScenario_def)
  from derived_rates_in_range [OF h] more h(7,8)
  show ?thesis by (simp add: Let_def)
qed

text \<open>
  What the query's own classification guarantees: connects are calls, RPCs are
  connects, and cash payments are both promises and RPCs (\<open>PHO\<close> and \<open>FCC\<close> are
  promise codes and in neither exclusion list). Promises and transfers are not bounded
  by the RPCs, as \<open>overflowCalls\<close> shows.
\<close>

lemma countIf_mono:
  "(\<And>x. x \<in> set xs \<Longrightarrow> P x \<Longrightarrow> Q x) \<Longrightarrow> countIf P xs \<le> countIf Q xs"
  unfolding countIf_def by (induction xs) auto

lemma countIf_le_length: "countIf P xs \<le> of_nat (length xs)"
  unfolding countIf_def by simp

lemma classifyCalls_funnel:
  "raw_connects (classifyCalls cs) \<le> raw_calls (classifyCalls cs)"
  "raw_rpcs (classifyCalls cs) \<le> raw_connects (classifyCalls cs)"
  "raw_cashPayments (classifyCalls cs) \<le> raw_promises (classifyCalls cs)"
  "raw_cashPayments (classifyCalls cs) \<le> raw_rpcs (classifyCalls cs)"
proof -
  show "raw_connects (classifyCalls cs) \<le> raw_calls (classifyCalls cs)"
    by (simp add: classifyCalls_def countIf_le_length)
  show "raw_rpcs (classifyCalls cs) \<le> raw_connects (classifyCalls cs)"
    unfolding classifyCalls_def by (simp, rule countIf_mono) simp
  show "raw_cashPayments (classifyCalls cs) \<le> raw_promises (classifyCalls cs)"
    unfolding classifyCalls_def
    by (simp, rule countIf_mono) (auto simp: PTP_RESULTS_def CASH_RESULTS_def)
  show "raw_cashPayments (classifyCalls cs) \<le> raw_rpcs (classifyCalls cs)"
    unfolding classifyCalls_def
    by (simp, rule countIf_mono)
      (auto simp: NON_CONNECT_RESULTS_def NON_RPC_RESULTS_def CASH_RESULTS_def)
qed

section \<open>Change and trend\<close>

lemma spec_trend_iff:
  "(spec_trend v = Up \<longleftrightarrow> v > 0.5) \<and> (spec_trend v = Down \<longleftrightarrow> v < - 0.5) \<and>
   (spec_trend v = Neutral \<longleftrightarrow> - 0.5 \<le> v \<and> v \<le> 0.5)"
  by (auto simp: spec_trend_def)

lemma calculateMoMChange_trend:
  "mom_trend (calculateMoMChange c b) = spec_trend (mom_value (calculateMoMChange c b))"
  by (cases "b = 0") (simp_all add: calculateMoMChange_def Let_def spec_trend_def)

lemma createScorecardMetric_trend:
  "trend (createScorecardMetric c b il) = spec_trend (change (createScorecardMetric c b il))"
  by (simp add: createScorecardMetric_def Let_def spec_trend_def)

lemma calculateMoMChange_value:
  "mom_value (calculateMoMChange c b) = (if b = 0 then 0 else ((c - b) / b) * 100)"
  by (simp add: calculateMoMChange_def Let_def)

lemma createScorecardMetric_change:
  "change (createScorecardMetric c b il) = (if b > 0 then ((c - b) / b) * 100 else 0)"
  by (simp add: createScorecardMetric_def Let_def)

text \<open>
  Claim C7. Both change computations, \<open>calculateMoMChange\<close> and
  \<open>createScorecardMetric\<close>, return \<open>((current - baseline) / baseline) * 100\<close> for a
  positive baseline and \<open>0\<close> with a neutral trend for the baseline \<open>0\<close>, whatever
  the current value; the trend is up exactly when the value exceeds \<open>0.5\<close>, down
  exactly when it is below \<open>-0.5\<close>, and neutral exactly in between.
  \<open>calculateMoMChange(120, 100)\<close> is \<open>{20, up}\<close> and
  \<open>calculateMoMChange(100.4, 100)\<close> is neutral.
\<close>

theorem change_value_and_trend:
  "(0 < b \<longrightarrow> mom_value (calculateMoMChange c b) = ((c - b) / b) * 100) \<and>
   calculateMoMChange c 0 = \<lparr> mom_value = 0, mom_trend = Neutral \<rparr> \<and>
   (mom_trend (calculateMoMChange c b) = Up \<longleftrightarrow> mom_value (calculateMoMChange c b) > 0.5) \<and>
   (mom_trend (calculateMoMChange c b) = Down \<longleftrightarrow> mom_value (calculateMoMChange c b) < - 0.5) \<and>
   (mom_trend (calculateMoMChange c b) = Neutral \<longleftrightarrow>
      - 0.5 \<le> mom_value (calculateMoMChange c b) \<and> mom_value (calculateMoMChange c b) \<le> 0.5) \<and>
   (0 < b \<longrightarrow> change (createScorecardMetric c b il) = ((c - b) / b) * 100) \<and>
   change (createScorecardMetric c 0 il) = 0 \<and>
   trend (createScorecardMetric c 0 il) = Neutral \<and>
   (trend (createScorecardMetric c b il) = Up \<longleftrightarrow> change (createScorecardMetric c b il) > 0.5) \<and>
   (trend (createScorecardMetric c b il) = Down \<longleftrightarrow>
      change (createScorecardMetric c b il) < - 0.5) \<and>
   (trend (createScorecardMetric c b il) = Neutral \<longleftrightarrow>
      - 0.5 \<le> change (createScorecardMetric c b il) \<and>
      change (createScorecardMetric c b il) \<le> 0.5) \<and>
   calculateMoMChange 120 100 = \<lparr> mom_value = 20, mom_trend = Up \<rparr> \<and>
   mom_trend (calculateMoMChange 100.4 100) = Neutral"
  (is "?v1 \<and> ?z1 \<and> ?u1 \<and> ?d1 \<and> ?n1 \<and> ?v2 \<and> ?z2 \<and> ?zt2 \<and> ?u2 \<and> ?d2 \<and> ?n2 \<and> ?ex1 \<and> ?ex2")
proof (intro conjI)
  show ?v1 by (simp add: calculateMoMChange_value)
  show ?z1 by (simp add: calculateMoMChange_def)
  show ?u1 ?d1 ?n1
    unfolding calculateMoMChange_trend using spec_trend_iff by blast+
  show ?v2 by (simp add: createScorecardMetric_change)
  show ?z2 by (simp add: createScorecardMetric_change)
  show ?zt2 by (simp add: createScorecardMetric_def)
  show ?u2 ?d2 ?n2
    unfolding createScorecardMetric_trend using spec_trend_iff by blast+
  show ?ex1 by (simp add: calculateMoMChange_def)
  show ?ex2 by (simp add: calculateMoMChange_def)
qed

theorem change_value_and_trend_witness:
  "(0::real) < 100 \<and>
   mom_value (calculateMoMChange 80 100) = - 20 \<and>
   mom_trend (calculateMoMChange 80 100) = Down \<and>
   change (createScorecardMetric 120 100 False) = 20 \<and>
   trend (createScorecardMetric 120 100 False) = Up"
  using change_value_and_trend [of 100 80 False] change_value_and_trend [of 100 120 False]
  by simp

section \<open>The overall score\<close>


lemma getScore_cases:
  "getScore c = 50 + (if c < - 50 then - 50 else if c > 50 then 50 else c)"
  by (simp add: getScore_def Let_def)






section \<open>Routing of the rows\<close>

lemmas parse_defs = rowInt_def rowFloat_def parseInt_def parseFloat_def parseExponent_def
  stripSign_def isWhiteSpace_def isDigitIn_def digitValue_def digitsValue_def

lemma example_row_values:
  "rowInt ''12'' = 12" "rowInt ''40'' = 40" "rowInt ''n/a'' = 0" "rowInt ''8'' = 8"
  "rowInt ''4'' = 4" "rowInt ''2'' = 2" "rowInt ''1'' = 1" "rowInt ''0'' = 0"
  "rowFloat ''90.5'' = 181 / 2" "rowFloat ''300'' = 300" "rowFloat ''150.25'' = 601 / 4"
  by (simp_all add: parse_defs)

lemma example_row_models:
  "lowerOrEmpty (row_model rowOutbound) = ''collections''"
  "lowerOrEmpty (row_direction rowOutbound) = []"
  "lowerOrEmpty (row_model rowInbound) = ''collections''"
  "lowerOrEmpty (row_direction rowInbound) = ''inbound''"
  "lowerOrEmpty (row_model rowUnknown) = ''sales''"
  by (simp_all add: rowOutbound_def rowInbound_def rowUnknown_def lowerOrEmpty_def
      toLowerCase_def)

lemma example_add_outbound:
  "addCollectionsRow zeroRawCollections rowOutbound =
     \<lparr> raw_accounts = 12, raw_calls = 40, raw_connects = 0, raw_rpcs = 8, raw_promises = 4,
       raw_cashPayments = 2, raw_transfers = 1, raw_durationMinutes = 181 / 2,
       raw_dollarPromised = 300, raw_dollarCollected = 601 / 4 \<rparr>"
  by (simp add: addCollectionsRow_def zeroRawCollections_def rowOutbound_def
      example_row_values)

lemma accumulateRow_unknown:
  "lowerOrEmpty (row_model row) \<notin> {''collections'', ''welcome'', ''verification'', ''inbound''}
     \<Longrightarrow> accumulateRow row acc = acc"
  by (simp add: accumulateRow_def Let_def)

lemma parseKPIResults_drop_unknown:
  assumes "lowerOrEmpty (row_model row) \<notin>
             {''collections'', ''welcome'', ''verification'', ''inbound''}"
  shows "parseKPIResults (rows1 @ row # rows2) = parseKPIResults (rows1 @ rows2)"
proof -
  have "accumulateRow row = id"
    using assms by (auto simp: accumulateRow_unknown)
  then show ?thesis
    by (simp add: parseKPIResults_def accumulateRows_def)
qed

lemma rowInt_unparsable: "parseInt x = None \<Longrightarrow> rowInt x = 0"
  by (simp add: rowInt_def)

lemma accumulateRows_snoc:
  "accumulateRows (rows @ [row]) = accumulateRow row (accumulateRows rows)"
  by (simp add: accumulateRows_def)

text \<open>
  Claim C10. A row whose lower-cased model is none of \<open>collections\<close>,
  \<open>welcome\<close>, \<open>verification\<close>, \<open>inbound\<close> leaves every accumulator as it is,
  and the parse of a list of rows is the parse of the list without it. A
  \<open>collections\<close> row is added to the inbound accumulator when its lower-cased
  direction is \<open>inbound\<close> and to the outbound collections accumulator for any
  other direction, also the empty and the missing one; the parse of the rows up to and
  with such a row changes in that one category only. A count column that
  \<open>parseInt\<close> cannot read adds \<open>0\<close> to its counter, in the collections and in
  the welcome/verification accumulators.
\<close>

theorem parseKPIResults_routing:
  "(lowerOrEmpty (row_model row) \<notin> {''collections'', ''welcome'', ''verification'', ''inbound''} \<longrightarrow>
      accumulateRow row acc = acc \<and>
      parseKPIResults (rows1 @ row # rows2) = parseKPIResults (rows1 @ rows2)) \<and>
   (lowerOrEmpty (row_model row) = ''collections'' \<and>
    lowerOrEmpty (row_direction row) = ''inbound'' \<longrightarrow>
      accumulateRow row acc = acc \<lparr> inboundRaw := addCollectionsRow (inboundRaw acc) row \<rparr> \<and>
      parseKPIResults (rows @ [row]) =
        (parseKPIResults rows) \<lparr> inbound := calculateDerivedCollectionsMetrics
           (addCollectionsRow (inboundRaw (accumulateRows rows)) row) \<rparr>) \<and>
   (lowerOrEmpty (row_model row) = ''collections'' \<and>
    lowerOrEmpty (row_direction row) \<noteq> ''inbound'' \<longrightarrow>
      accumulateRow row acc = acc \<lparr> collectionsRaw := addCollectionsRow (collectionsRaw acc) row \<rparr> \<and>
      parseKPIResults (rows @ [row]) =
        (parseKPIResults rows) \<lparr> collections := calculateDerivedCollectionsMetrics
           (addCollectionsRow (collectionsRaw (accumulateRows rows)) row) \<rparr>) \<and>
   (row_direction row = None \<longrightarrow> lowerOrEmpty (row_direction row) \<noteq> ''inbound'') \<and>
   (parseInt (row_accounts row) = None \<longrightarrow>
      raw_accounts (addCollectionsRow c row) = raw_accounts c \<and>
      rawwv_accounts (addWelcomeRow w row) = rawwv_accounts w) \<and>
   (parseInt (row_calls row) = None \<longrightarrow>
      raw_calls (addCollectionsRow c row) = raw_calls c \<and>
      rawwv_calls (addWelcomeRow w row) = rawwv_calls w) \<and>
   (parseInt (row_connects row) = None \<longrightarrow>
      raw_connects (addCollectionsRow c row) = raw_connects c \<and>
      rawwv_connects (addWelcomeRow w row) = rawwv_connects w) \<and>
   (parseInt (row_rpcs row) = None \<longrightarrow>
      raw_rpcs (addCollectionsRow c row) = raw_rpcs c \<and>
      rawwv_rpcs (addWelcomeRow w row) = rawwv_rpcs w \<and>
      rawwv_eligible (addWelcomeRow w row) = rawwv_eligible w) \<and>
   (parseInt (row_promises row) = None \<longrightarrow>
      raw_promises (addCollectionsRow c row) = raw_promises c) \<and>
   (parseInt (row_cash_payments row) = None \<longrightarrow>
      raw_cashPayments (addCollectionsRow c row) = raw_cashPayments c) \<and>
   (parseInt (row_transfers row) = None \<longrightarrow>
      raw_transfers (addCollectionsRow c row) = raw_transfers c) \<and>
   (parseInt (row_completed_verifications row) = None \<longrightarrow>
      rawwv_completed (addWelcomeRow w row) = rawwv_completed w)"
  (is "?unknown \<and> ?inb \<and> ?outb \<and> ?missing \<and> ?fields")
proof (intro conjI)
  show ?unknown
    by (simp add: accumulateRow_unknown parseKPIResults_drop_unknown)
  show ?inb
    by (simp add: parseKPIResults_def accumulateRows_snoc accumulateRow_def Let_def)
  show ?outb
    by (simp add: parseKPIResults_def accumulateRows_snoc accumulateRow_def Let_def)
  show ?missing
    by (simp add: lowerOrEmpty_def)
qed (simp_all add: addCollectionsRow_def addWelcomeRow_def rowInt_unparsable)

text \<open>
  On the example rows: the unknown model is dropped, the row without a direction goes
  to outbound collections, the row with direction \<open>Inbound\<close> to inbound, and the
  unreadable \<open>connects\<close> column counts as \<open>0\<close> next to 40 calls.
\<close>

theorem parseKPIResults_routing_witness:
  "lowerOrEmpty (row_model rowUnknown) \<notin>
     {''collections'', ''welcome'', ''verification'', ''inbound''} \<and>
   parseKPIResults [rowOutbound, rowUnknown, rowInbound] =
     parseKPIResults [rowOutbound, rowInbound] \<and>
   row_direction rowOutbound = None \<and>
   accumulateRow rowOutbound zeroAccumulators =
     zeroAccumulators \<lparr> collectionsRaw := addCollectionsRow zeroRawCollections rowOutbound \<rparr> \<and>
   accumulateRow rowInbound zeroAccumulators =
     zeroAccumulators \<lparr> inboundRaw := addCollectionsRow zeroRawCollections rowInbound \<rparr> \<and>
   parseInt (row_connects rowOutbound) = None \<and>
   raw_connects (addCollectionsRow zeroRawCollections rowOutbound) = 0 \<and>
   raw_calls (addCollectionsRow zeroRawCollections rowOutbound) = 40"
proof -
  have unparsable: "parseInt (row_connects rowOutbound) = None"
    by (simp add: rowOutbound_def parse_defs)
  have zero: "collectionsRaw zeroAccumulators = zeroRawCollections"
    "inboundRaw zeroAccumulators = zeroRawCollections"
    "raw_connects zeroRawCollections = 0"
    by (simp_all add: zeroAccumulators_def zeroRawCollections_def)
  have calls: "raw_calls (addCollectionsRow zeroRawCollections rowOutbound) = 40"
    by (simp add: example_add_outbound)
  have nodir: "row_direction rowOutbound = None"
    by (simp add: rowOutbound_def)
  from parseKPIResults_routing
         [of rowUnknown zeroAccumulators "[rowOutbound]" "[rowInbound]" "[]"
             zeroRawCollections zeroRawWelcome]
       parseKPIResults_routing
         [of rowOutbound zeroAccumulators "[]" "[]" "[]" zeroRawCollections zeroRawWelcome]
       parseKPIResults_routing
         [of rowInbound zeroAccumulators "[]" "[]" "[]" zeroRawCollections zeroRawWelcome]
       unparsable calls nodir
  show ?thesis
    by (simp add: example_row_models zero)
qed

end
